theory Spec2Isabelle
  imports Complex_Main "HOL-Library.Word"
begin

section \<open>Python values used by the service\<close>

text \<open>
  A Python \<^verbatim>\<open>str\<close> is a sequence of Unicode code points, so slicing and
  \<^verbatim>\<open>len\<close> count code points. A code point is a natural number here; the literals
  of the source are ASCII and are written through \<open>py\<close>.
\<close>

type_synonym pystr = "nat list"

definition py :: "string \<Rightarrow> pystr" where
  "py s = map of_char s"

text \<open>
  The code points for which \<^verbatim>\<open>str.isspace\<close> holds; \<^verbatim>\<open>str.split()\<close> without
  arguments separates at runs of them.
\<close>

definition isspace :: "nat \<Rightarrow> bool" where
  "isspace c \<longleftrightarrow>
     (0x09 \<le> c \<and> c \<le> 0x0D) \<or> (0x1C \<le> c \<and> c \<le> 0x20) \<or> c = 0x85 \<or> c = 0xA0 \<or>
     c = 0x1680 \<or> (0x2000 \<le> c \<and> c \<le> 0x200A) \<or> c = 0x2028 \<or> c = 0x2029 \<or>
     c = 0x202F \<or> c = 0x205F \<or> c = 0x3000"

text \<open>
  \<^verbatim>\<open>s.split()\<close>: skip the whitespace, take the characters up to the next whitespace
  as one token, and go on behind it.
\<close>

function split :: "pystr \<Rightarrow> pystr list" where
  "split s =
     (case dropWhile isspace s of
        [] \<Rightarrow> []
      | c # cs \<Rightarrow>
          (c # takeWhile (\<lambda>d. \<not> isspace d) cs) # split (dropWhile (\<lambda>d. \<not> isspace d) cs))"
  by pat_completeness auto
termination
proof (relation "measure length")
  show "wf (measure length)" by simp
next
  fix s :: pystr and c cs
  assume "dropWhile isspace s = c # cs"
  then have "length (c # cs) \<le> length s"
    by (metis length_dropWhile_le)
  moreover have "length (dropWhile (\<lambda>d. \<not> isspace d) cs) \<le> length cs"
    by (rule length_dropWhile_le)
  ultimately show "(dropWhile (\<lambda>d. \<not> isspace d) cs, s) \<in> measure length"
    by simp
qed

declare split.simps [simp del]

text \<open>\<^verbatim>\<open>str(n)\<close> for an integer: its decimal digits, with a sign when negative.\<close>

definition digit :: "nat \<Rightarrow> nat" where
  "digit d = 48 + d"

function str_nat :: "nat \<Rightarrow> pystr" where
  "str_nat n = (if n < 10 then [digit n] else str_nat (n div 10) @ [digit (n mod 10)])"
  by pat_completeness auto
termination
  by (relation "measure id") auto

declare str_nat.simps [simp del]

definition str_int :: "int \<Rightarrow> pystr" where
  "str_int i = (if i < 0 then 45 # str_nat (nat (- i)) else str_nat (nat i))"

text \<open>Reading a decimal numeral back, to say that \<open>str_nat\<close> loses nothing.\<close>

definition decimal :: "pystr \<Rightarrow> nat" where
  "decimal ds = foldl (\<lambda>a d. 10 * a + (d - 48)) 0 ds"

text \<open>
  Python floats are modelled as real numbers: the arithmetic of the source is exact
  here, rounding to binary64 is not part of the model.

  \<^verbatim>\<open>f"{x:.2f}"\<close> prints the decimal with two fractional digits nearest to the value,
  a tie going to the even neighbour.
\<close>

definition round_half_even :: "real \<Rightarrow> int" where
  "round_half_even x =
     (let f = \<lfloor>x\<rfloor>; d = x - of_int f
      in if d < 1 / 2 then f else if 1 / 2 < d then f + 1 else if even f then f else f + 1)"

definition format_2f :: "real \<Rightarrow> pystr" where
  "format_2f x =
     (let n = nat (round_half_even (\<bar>x\<bar> * 100))
      in (if x < 0 then [45] else []) @ str_nat (n div 100) @ [46] @
         [digit ((n mod 100) div 10), digit (n mod 10)])"

text \<open>
  The values that reach \<^verbatim>\<open>mock_analysis\<close> as \<^verbatim>\<open>input_text\<close>: the handlers of this
  service pass the string of the request; \<^verbatim>\<open>None\<close> is the absent input that
  \<^verbatim>\<open>... if input_text else []\<close> is written for, next to the empty string.
\<close>

datatype py_value = PyNone | PyStr pystr

fun truthy :: "py_value \<Rightarrow> bool" where
  "truthy PyNone = False"
| "truthy (PyStr s) = (s \<noteq> [])"

fun str :: "py_value \<Rightarrow> pystr" where
  "str PyNone = py ''None''"
| "str (PyStr s) = s"

text \<open>The dictionaries the handlers return, in the order in which their keys are written.\<close>

datatype json =
    JBool bool
  | JNum real
  | JStr pystr
  | JList "json list"
  | JObj "(string \<times> json) list"

fun field :: "json \<Rightarrow> string \<Rightarrow> json option" where
  "field (JObj kvs) k = map_of kvs k"
| "field _ k = None"

fun keys :: "json \<Rightarrow> string list" where
  "keys (JObj kvs) = map fst kvs"
| "keys _ = []"

section \<open>Exceptions and handler outcomes\<close>

text \<open>
  The source tells three kinds of exception apart: \<^verbatim>\<open>except ImportError\<close> takes
  \<^verbatim>\<open>ImportError\<close> and its subclasses, \<^verbatim>\<open>except Exception\<close> takes every
  \<^verbatim>\<open>Exception\<close>, and what derives from \<^verbatim>\<open>BaseException\<close> only
  (\<^verbatim>\<open>KeyboardInterrupt\<close>, \<^verbatim>\<open>SystemExit\<close>, a cancellation) passes both.
\<close>

datatype exc_class = ImportError | OtherException | BaseExceptionOnly

record py_exception =
  exc_class :: exc_class
  exc_message :: pystr

definition isinstance_ImportError :: "py_exception \<Rightarrow> bool" where
  "isinstance_ImportError e \<longleftrightarrow> exc_class e = ImportError"

definition isinstance_Exception :: "py_exception \<Rightarrow> bool" where
  "isinstance_Exception e \<longleftrightarrow> exc_class e \<noteq> BaseExceptionOnly"

definition IndexError :: py_exception where
  "IndexError = \<lparr>exc_class = OtherException, exc_message = py ''list index out of range''\<rparr>"

text \<open>
  A handler returns a dictionary, raises \<^verbatim>\<open>HTTPException(status_code, detail)\<close>, or
  lets another exception escape.
\<close>

datatype failure = HTTPException nat pystr | Escaped py_exception

type_synonym outcome = "failure + json"

section \<open>The collaborators\<close>

text \<open>
  \<^verbatim>\<open>classifier(text)\<close> returns a list of \<^verbatim>\<open>{'label': ..., 'score': ...}\<close> or raises;
  \<^verbatim>\<open>pipeline(task, model=...)\<close> returns a classifier or raises.
\<close>

record classification =
  label :: pystr
  score :: real

type_synonym classifier = "pystr \<Rightarrow> py_exception + classification list"

type_synonym pipeline = "pystr \<Rightarrow> pystr \<Rightarrow> py_exception + classifier"

text \<open>
  \<^verbatim>\<open>random.random()\<close> turns 53 random bits \<open>n\<close> into the float \<open>n / 2^53\<close>;
  \<^verbatim>\<open>random.uniform(a, b)\<close> is \<^verbatim>\<open>a + (b - a) * random()\<close>.
\<close>

definition random :: "53 word \<Rightarrow> real" where
  "random n = real (unat n) / 2 ^ 53"

definition uniform :: "real \<Rightarrow> real \<Rightarrow> 53 word \<Rightarrow> real" where
  "uniform a b n = a + (b - a) * random n"

text \<open>
  What one call of \<^verbatim>\<open>mock_analysis\<close> draws, in program order: the bits behind
  \<^verbatim>\<open>random.uniform(0.3, 0.9)\<close> and the results of the two
  \<^verbatim>\<open>random.choice([True, False])\<close>.
\<close>

record mock_draws =
  score_bits :: "53 word"
  bias_choice :: bool
  manipulated_choice :: bool

text \<open>
  The surroundings of one request: what \<^verbatim>\<open>from transformers import pipeline\<close> does,
  what \<^verbatim>\<open>Image.open(io.BytesIO(image_bytes)).size\<close> gives for the uploaded bytes, and
  the random draws.
\<close>

record environment =
  transformers_import :: "py_exception + pipeline"
  image_open :: "8 word list \<Rightarrow> py_exception + (int \<times> int)"
  mock_random :: mock_draws
  image_random :: "53 word"

text \<open>
  What the text handler does to the classifier, in order: \<^verbatim>\<open>pipeline(...)\<close> returned
  one, it was called on a text, \<^verbatim>\<open>del classifier; gc.collect()\<close> ran.
\<close>

datatype event = Constructed | Invoked pystr | Released

section \<open>The source functions\<close>

definition import_transformers :: "py_exception + pipeline \<Rightarrow> py_exception + pipeline option" where
  "import_transformers imp =
     (case imp of
        Inr pipeline \<Rightarrow> Inr (Some pipeline)
      | Inl e \<Rightarrow> if isinstance_ImportError e then Inr None else Inl e)"

definition root :: json where
  "root = JObj
     [(''message'', JStr (py ''AI Analysis API is running'')),
      (''status'', JStr (py ''healthy'')),
      (''memory_optimized'', JBool True),
      (''endpoints'', JObj
         [(''text'', JStr (py ''/analyze/text'')),
          (''url'', JStr (py ''/analyze/url'')),
          (''image'', JStr (py ''/analyze/image'')),
          (''health'', JStr (py ''/health''))])]"

definition health_check :: json where
  "health_check = JObj
     [(''status'', JStr (py ''ok'')), (''message'', JStr (py ''Service is healthy''))]"

definition mock_analysis :: "pystr \<Rightarrow> py_value \<Rightarrow> mock_draws \<Rightarrow> json" where
  "mock_analysis content_type input_text rnd =
     (let mock_score = uniform 0.3 0.9 (score_bits rnd);
          is_misinfo = (mock_score < 0.6)
      in JObj
        [(''type'', JStr content_type),
         (''credibilityScore'', JNum mock_score),
         (''analysis'', JStr (py ''Analysis complete. Content scored '' @ format_2f mock_score @
                               py '' for credibility.'')),
         (''flags'', JObj
            [(''potentialMisinformation'', JBool is_misinfo),
             (''needsFactChecking'', JBool is_misinfo),
             (''biasDetected'', JBool (bias_choice rnd)),
             (''manipulatedContent'', JBool (manipulated_choice rnd))]),
         (''sources'', JList [JStr (py ''Memory-Optimized Analysis'')]),
         (''details'', JObj
            [(''sentiment'', JStr (py ''N/A'')),
             (''confidence'', JNum mock_score),
             (''keyTerms'', JList (map JStr
                (if truthy input_text then take 5 (split (str input_text)) else [])))])])"

record text_analysis_request =
  text' :: pystr

record url_analysis_request =
  url :: pystr

text \<open>
  The \<^verbatim>\<open>try\<close> block of \<^verbatim>\<open>analyze_text\<close>: the dictionary it returns or the exception
  it raises, with the events up to there. \<^verbatim>\<open>result[0]\<close> raises \<^verbatim>\<open>IndexError\<close> on an
  empty list.
\<close>

definition try_classifier :: "pipeline \<Rightarrow> text_analysis_request \<Rightarrow> (py_exception + json) \<times> event list" where
  "try_classifier pipeline request =
     (case pipeline (py ''sentiment-analysis'')
                    (py ''distilbert-base-uncased-finetuned-sst-2-english'') of
        Inl e \<Rightarrow> (Inl e, [])
      | Inr classifier \<Rightarrow>
          (case classifier (take 512 (text' request)) of
             Inl e \<Rightarrow> (Inl e, [Constructed, Invoked (take 512 (text' request))])
           | Inr result \<Rightarrow>
               (case result of
                  [] \<Rightarrow> (Inl IndexError,
                         [Constructed, Invoked (take 512 (text' request)), Released])
                | r # _ \<Rightarrow>
                    (Inr (JObj [(''result'', JObj
                       [(''type'', JStr (py ''text'')),
                        (''credibilityScore'', JNum (score r)),
                        (''analysis'', JStr (py ''Text sentiment: '' @ label r)),
                        (''simplified'', JBool True)])]),
                     [Constructed, Invoked (take 512 (text' request)), Released]))))"

definition analyze_text :: "environment \<Rightarrow> text_analysis_request \<Rightarrow> outcome \<times> event list" where
  "analyze_text env request =
     (case import_transformers (transformers_import env) of
        Inl e \<Rightarrow> (Inl (Escaped e), [])
      | Inr None \<Rightarrow>
          (Inr (JObj [(''result'', mock_analysis (py ''text'') (PyStr (text' request))
                                     (mock_random env))]), [])
      | Inr (Some pipeline) \<Rightarrow>
          (case try_classifier pipeline request of
             (Inr response, events) \<Rightarrow> (Inr response, events)
           | (Inl e, events) \<Rightarrow>
               if isinstance_Exception e
               then (Inr (JObj [(''result'', mock_analysis (py ''text'') (PyStr (text' request))
                                               (mock_random env))]), events)
               else (Inl (Escaped e), events)))"

definition analyze_url :: "environment \<Rightarrow> url_analysis_request \<Rightarrow> outcome" where
  "analyze_url env request =
     Inr (JObj [(''result'', mock_analysis (py ''url'') (PyStr (url request)) (mock_random env))])"

text \<open>The upload, read whole by \<^verbatim>\<open>await file.read()\<close>.\<close>

record upload_file =
  content :: "8 word list"

definition analyze_image :: "environment \<Rightarrow> upload_file \<Rightarrow> outcome" where
  "analyze_image env file =
     (let image_bytes = content file
      in case image_open env image_bytes of
           Inr (width, height) \<Rightarrow>
             Inr (JObj [(''result'', JObj
               [(''type'', JStr (py ''image'')),
                (''credibilityScore'', JNum (uniform 0.5 0.9 (image_random env))),
                (''analysis'', JStr (py ''Image processed: '' @ str_int width @ py ''x'' @
                                      str_int height @ py '' pixels'')),
                (''basic_analysis'', JBool True)])])
         | Inl e \<Rightarrow>
             if isinstance_Exception e
             then Inl (HTTPException 500 (py ''Image processing failed: '' @ exc_message e))
             else Inl (Escaped e))"

definition analyze_video :: outcome where
  "analyze_video = Inl (HTTPException 501 (py ''Video analysis not implemented''))"

text \<open>
  The routes of the application. The body of a request to \<^verbatim>\<open>/analyze/video\<close> is
  whatever the client sent, or nothing: the handler has no parameter.
\<close>

datatype request =
    Get_Root
  | Get_Health
  | Post_Analyze_Text text_analysis_request
  | Post_Analyze_Url url_analysis_request
  | Post_Analyze_Image upload_file
  | Post_Analyze_Video "8 word list option"

fun app :: "environment \<Rightarrow> request \<Rightarrow> outcome" where
  "app env Get_Root = Inr root"
| "app env Get_Health = Inr health_check"
| "app env (Post_Analyze_Text r) = fst (analyze_text env r)"
| "app env (Post_Analyze_Url r) = analyze_url env r"
| "app env (Post_Analyze_Image f) = analyze_image env f"
| "app env (Post_Analyze_Video body) = analyze_video"


section \<open>Example surroundings\<close>

text \<open>
  Concrete surroundings on which the theorems below are instantiated: a decoder that
  accepts one upload as a 10 by 20 image, a classifier that answers, one that raises, an
  installation without the library, and one whose library fails to load.
\<close>

definition example_draws :: mock_draws where
  "example_draws = \<lparr>score_bits = 0, bias_choice = True, manipulated_choice = False\<rparr>"

definition example_upload :: upload_file where
  "example_upload = \<lparr>content = [0x89, 0x50, 0x4E, 0x47]\<rparr>"

definition example_image_open :: "8 word list \<Rightarrow> py_exception + (int \<times> int)" where
  "example_image_open image_bytes =
     (if image_bytes = content example_upload then Inr (10, 20)
      else Inl \<lparr>exc_class = OtherException, exc_message = py ''cannot identify image file''\<rparr>)"

definition positive_classifier :: classifier where
  "positive_classifier t = Inr [\<lparr>label = py ''POSITIVE'', score = 0.99\<rparr>]"

definition failing_classifier :: classifier where
  "failing_classifier t =
     Inl \<lparr>exc_class = OtherException, exc_message = py ''out of memory''\<rparr>"

definition env_inference :: environment where
  "env_inference =
     \<lparr>transformers_import = Inr (\<lambda>task model. Inr positive_classifier),
      image_open = example_image_open,
      mock_random = example_draws,
      image_random = 0\<rparr>"

definition env_failing_classifier :: environment where
  "env_failing_classifier =
     env_inference\<lparr>transformers_import := Inr (\<lambda>task model. Inr failing_classifier)\<rparr>"

definition env_not_installed :: environment where
  "env_not_installed =
     env_inference\<lparr>transformers_import :=
       Inl \<lparr>exc_class = ImportError, exc_message = py ''No module named transformers''\<rparr>\<rparr>"

definition env_broken_install :: environment where
  "env_broken_install =
     env_inference\<lparr>transformers_import :=
       Inl \<lparr>exc_class = OtherException,
            exc_message = py ''Failed to import transformers.pipelines''\<rparr>\<rparr>"

definition hello :: text_analysis_request where
  "hello = \<lparr>text' = py ''hello world''\<rparr>"



section \<open>The random draws\<close>

lemma random_range: "0 \<le> random n \<and> random n < 1"
proof -
  have "unat n < 2 ^ 53"
    using unsigned_less [of n] by simp
  then have "real (unat n) < real (2 ^ 53)"
    by (simp only: of_nat_less_iff)
  then have lt: "real (unat n) < 2 ^ 53"
    by simp
  have "0 \<le> real (unat n) / 2 ^ 53"
  proof (rule divide_nonneg_pos)
    show "0 \<le> real (unat n)" by (rule of_nat_0_le_iff)
    show "(0::real) < 2 ^ 53" by (rule zero_less_power) (rule zero_less_numeral)
  qed
  moreover have "real (unat n) / 2 ^ 53 < 1"
    using lt by (simp only: divide_less_eq_1_pos zero_less_power zero_less_numeral)
  ultimately show ?thesis
    unfolding random_def by blast
qed

lemma uniform_range:
  assumes "a < b"
  shows "a \<le> uniform a b n \<and> uniform a b n < b"
proof -
  have r: "0 \<le> random n" "random n < 1"
    using random_range by simp_all
  have "0 \<le> (b - a) * random n"
    using assms r by simp
  moreover have "(b - a) * random n < (b - a) * 1"
    using assms r by (intro mult_strict_left_mono) simp_all
  ultimately show ?thesis
    by (simp add: uniform_def)
qed

section \<open>Splitting at whitespace\<close>

lemma split_Nil: "dropWhile isspace s = [] \<Longrightarrow> split s = []"
  by (subst split.simps) (simp only: list.case)

lemma split_Cons:
  "dropWhile isspace s = c # cs \<Longrightarrow>
   split s = (c # takeWhile (\<lambda>d. \<not> isspace d) cs) # split (dropWhile (\<lambda>d. \<not> isspace d) cs)"
  by (subst split.simps) (simp only: list.case)

lemma dropWhile_head: "dropWhile P s = c # cs \<Longrightarrow> \<not> P c"
  by (metis hd_dropWhile list.discI list.sel(1))

text \<open>Every token is a non-empty run without whitespace.\<close>

lemma split_tokens: "t \<in> set (split s) \<Longrightarrow> t \<noteq> [] \<and> (\<forall>c\<in>set t. \<not> isspace c)"
proof (induction s rule: split.induct)
  case (1 s)
  show ?case
  proof (cases "dropWhile isspace s")
    case Nil
    with "1.prems" show ?thesis by (simp only: split_Nil set_simps empty_iff)
  next
    case (Cons c cs)
    have c: "\<not> isspace c"
      using Cons by (rule dropWhile_head)
    from "1.prems"
    have "t = c # takeWhile (\<lambda>d. \<not> isspace d) cs \<or>
          t \<in> set (split (dropWhile (\<lambda>d. \<not> isspace d) cs))"
      by (simp only: split_Cons [OF Cons] set_simps insert_iff)
    then show ?thesis
    proof
      assume "t = c # takeWhile (\<lambda>d. \<not> isspace d) cs"
      then show ?thesis using c by (auto dest: set_takeWhileD)
    next
      assume "t \<in> set (split (dropWhile (\<lambda>d. \<not> isspace d) cs))"
      then show ?thesis by (rule "1.IH" [OF Cons])
    qed
  qed
qed

text \<open>The tokens, put together, are the text without its whitespace: nothing is lost.\<close>

lemma concat_split: "concat (split s) = filter (\<lambda>c. \<not> isspace c) s"
proof (induction s rule: split.induct)
  case (1 s)
  show ?case
  proof (cases "dropWhile isspace s")
    case Nil
    then have "\<forall>c\<in>set s. isspace c"
      by (simp add: dropWhile_eq_Nil_conv)
    then have "filter (\<lambda>c. \<not> isspace c) s = []"
      by (simp add: filter_empty_conv)
    then show ?thesis by (simp add: split_Nil [OF Nil])
  next
    case (Cons c cs)
    let ?t = "takeWhile (\<lambda>d. \<not> isspace d) cs"
    let ?r = "dropWhile (\<lambda>d. \<not> isspace d) cs"
    have c: "\<not> isspace c"
      using Cons by (rule dropWhile_head)
    have s: "s = takeWhile isspace s @ c # cs"
      using Cons by (metis takeWhile_dropWhile_id)
    have ws: "filter (\<lambda>c. \<not> isspace c) (takeWhile isspace s) = []"
      by (auto simp: filter_empty_conv dest: set_takeWhileD)
    have "filter (\<lambda>c. \<not> isspace c) s =
        filter (\<lambda>c. \<not> isspace c) (takeWhile isspace s) @ filter (\<lambda>c. \<not> isspace c) (c # cs)"
      by (subst s) (simp only: filter_append)
    also have "\<dots> = c # filter (\<lambda>c. \<not> isspace c) cs"
      using c ws by simp
    also have "filter (\<lambda>c. \<not> isspace c) cs =
        filter (\<lambda>c. \<not> isspace c) ?t @ filter (\<lambda>c. \<not> isspace c) ?r"
      by (metis filter_append takeWhile_dropWhile_id)
    also have "filter (\<lambda>c. \<not> isspace c) ?t = ?t"
      by (auto simp: filter_id_conv dest: set_takeWhileD)
    finally have "filter (\<lambda>c. \<not> isspace c) s = c # ?t @ filter (\<lambda>c. \<not> isspace c) ?r" .
    moreover have "concat (split s) = c # ?t @ concat (split ?r)"
      by (simp add: split_Cons [OF Cons])
    ultimately show ?thesis
      using "1.IH" [OF Cons] by simp
  qed
qed

section \<open>Decimal numerals\<close>

lemma decimal_snoc: "decimal (ds @ [d]) = 10 * decimal ds + (d - 48)"
  by (simp add: decimal_def)

lemma decimal_str_nat: "decimal (str_nat n) = n"
proof (induction n rule: str_nat.induct)
  case (1 n)
  show ?case
  proof (cases "n < 10")
    case True
    then show ?thesis
      by (simp add: str_nat.simps [of n] decimal_def digit_def)
  next
    case False
    then show ?thesis
      using "1.IH" by (simp add: str_nat.simps [of n] decimal_snoc digit_def)
  qed
qed

section \<open>The mock scorer\<close>

lemma mock_analysis_fields:
  "field (mock_analysis content_type input_text rnd) ''type'' = Some (JStr content_type)"
  "field (mock_analysis content_type input_text rnd) ''credibilityScore'' =
     Some (JNum (uniform 0.3 0.9 (score_bits rnd)))"
  "field (mock_analysis content_type input_text rnd) ''flags'' = Some (JObj
     [(''potentialMisinformation'', JBool (uniform 0.3 0.9 (score_bits rnd) < 0.6)),
      (''needsFactChecking'', JBool (uniform 0.3 0.9 (score_bits rnd) < 0.6)),
      (''biasDetected'', JBool (bias_choice rnd)),
      (''manipulatedContent'', JBool (manipulated_choice rnd))])"
  "field (mock_analysis content_type input_text rnd) ''sources'' =
     Some (JList [JStr (py ''Memory-Optimized Analysis'')])"
  "field (mock_analysis content_type input_text rnd) ''details'' = Some (JObj
     [(''sentiment'', JStr (py ''N/A'')),
      (''confidence'', JNum (uniform 0.3 0.9 (score_bits rnd))),
      (''keyTerms'', JList (map JStr
         (if truthy input_text then take 5 (split (str input_text)) else [])))])"
  by (simp_all add: mock_analysis_def Let_def)

lemma mock_score_range:
  "0.3 \<le> uniform 0.3 0.9 n \<and> uniform 0.3 0.9 n < 0.9"
  by (rule uniform_range) simp

lemma image_score_range:
  "0.5 \<le> uniform 0.5 0.9 n \<and> uniform 0.5 0.9 n < 0.9"
  by (rule uniform_range) simp

text \<open>
  C5. For every content type and input, the mock scorer's score lies in the half-open
  interval from 0.3 to 0.9, and \<^verbatim>\<open>keyTerms\<close> are the first five tokens of the input's
  string form, split at whitespace, or no token when the input is empty or absent; so
  there are at most five, each a non-empty run without whitespace.
\<close>

theorem mock_analysis_score_and_keyTerms:
  "\<exists>s details terms.
     field (mock_analysis content_type input_text rnd) ''credibilityScore'' = Some (JNum s) \<and>
     0.3 \<le> s \<and> s < 0.9 \<and>
     field (mock_analysis content_type input_text rnd) ''details'' = Some details \<and>
     field details ''keyTerms'' = Some (JList (map JStr terms)) \<and>
     terms = (if input_text = PyNone \<or> input_text = PyStr [] then []
              else take 5 (split (str input_text))) \<and>
     length terms \<le> 5 \<and>
     (\<forall>t\<in>set terms. t \<noteq> [] \<and> (\<forall>c\<in>set t. \<not> isspace c))"
proof -
  let ?terms = "if truthy input_text then take 5 (split (str input_text)) else []"
  have "length ?terms \<le> 5"
    by simp
  moreover have "\<forall>t\<in>set ?terms. t \<noteq> [] \<and> (\<forall>c\<in>set t. \<not> isspace c)"
    using split_tokens by (auto dest: in_set_takeD)
  moreover have "?terms = (if input_text = PyNone \<or> input_text = PyStr [] then []
      else take 5 (split (str input_text)))"
    by (cases input_text) simp_all
  ultimately show ?thesis
    using mock_score_range [of "score_bits rnd"]
    by (simp only: mock_analysis_fields field.simps map_of.simps fst_conv snd_conv) auto
qed

theorem mock_analysis_score_and_keyTerms_witness:
  "field (mock_analysis (py ''url'')
            (PyStr (py ''  breaking: the moon is made of cheese, experts say '')) example_draws)
     ''credibilityScore'' = Some (JNum 0.3) \<and>
   field (mock_analysis (py ''url'')
            (PyStr (py ''  breaking: the moon is made of cheese, experts say '')) example_draws)
     ''details'' =
     Some (JObj
       [(''sentiment'', JStr (py ''N/A'')),
        (''confidence'', JNum 0.3),
        (''keyTerms'', JList (map JStr
           [py ''breaking:'', py ''the'', py ''moon'', py ''is'', py ''made'']))]) \<and>
   field (mock_analysis (py ''url'') PyNone example_draws) ''details'' =
     Some (JObj
       [(''sentiment'', JStr (py ''N/A'')),
        (''confidence'', JNum 0.3),
        (''keyTerms'', JList [])])"
  using mock_analysis_score_and_keyTerms [of "py ''url''"
      "PyStr (py ''  breaking: the moon is made of cheese, experts say '')" example_draws]
  by (simp add: mock_analysis_def Let_def example_draws_def uniform_def random_def py_def
        split.simps isspace_def)

text \<open>
  C4. For every url, \<^verbatim>\<open>POST /analyze/url\<close> answers with the mock scorer's result for
  the type \<^verbatim>\<open>url\<close>; its flags \<^verbatim>\<open>potentialMisinformation\<close> and
  \<^verbatim>\<open>needsFactChecking\<close> are both the truth value of
  \<^verbatim>\<open>credibilityScore < 0.6\<close>.
\<close>

theorem analyze_url_mock_result:
  "\<exists>result flags s.
     app env (Post_Analyze_Url request) = Inr (JObj [(''result'', result)]) \<and>
     result = mock_analysis (py ''url'') (PyStr (url request)) (mock_random env) \<and>
     field result ''type'' = Some (JStr (py ''url'')) \<and>
     field result ''credibilityScore'' = Some (JNum s) \<and>
     field result ''flags'' = Some flags \<and>
     field flags ''potentialMisinformation'' = Some (JBool (s < 0.6)) \<and>
     field flags ''needsFactChecking'' = Some (JBool (s < 0.6))"
  by (simp add: analyze_url_def mock_analysis_fields)

theorem analyze_url_mock_result_witness:
  "app env_inference (Post_Analyze_Url \<lparr>url = py ''http://example.org/news''\<rparr>) =
     Inr (JObj [(''result'',
       mock_analysis (py ''url'') (PyStr (py ''http://example.org/news'')) example_draws)]) \<and>
   field (mock_analysis (py ''url'') (PyStr (py ''http://example.org/news'')) example_draws)
     ''flags'' = Some (JObj
       [(''potentialMisinformation'', JBool True),
        (''needsFactChecking'', JBool True),
        (''biasDetected'', JBool True),
        (''manipulatedContent'', JBool False)])"
  using analyze_url_mock_result [of env_inference "\<lparr>url = py ''http://example.org/news''\<rparr>"]
  by (simp add: env_inference_def mock_analysis_fields example_draws_def uniform_def random_def)

section \<open>The text handler\<close>

text \<open>The ways through the text handler.\<close>

lemma analyze_text_import_escapes:
  "transformers_import env = Inl e \<Longrightarrow> \<not> isinstance_ImportError e \<Longrightarrow>
   analyze_text env request = (Inl (Escaped e), [])"
  by (simp add: analyze_text_def import_transformers_def)

lemma analyze_text_not_installed:
  "transformers_import env = Inl e \<Longrightarrow> isinstance_ImportError e \<Longrightarrow>
   analyze_text env request =
     (Inr (JObj [(''result'', mock_analysis (py ''text'') (PyStr (text' request)) (mock_random env))]), [])"
  by (simp add: analyze_text_def import_transformers_def)

lemma analyze_text_try:
  "transformers_import env = Inr pipeline \<Longrightarrow>
   analyze_text env request =
     (case try_classifier pipeline request of
        (Inr response, events) \<Rightarrow> (Inr response, events)
      | (Inl e, events) \<Rightarrow>
          if isinstance_Exception e
          then (Inr (JObj [(''result'', mock_analysis (py ''text'') (PyStr (text' request))
                                          (mock_random env))]), events)
          else (Inl (Escaped e), events))"
  by (simp add: analyze_text_def import_transformers_def)

lemma try_classifier_construct_fails:
  "pipeline (py ''sentiment-analysis'') (py ''distilbert-base-uncased-finetuned-sst-2-english'') = Inl e \<Longrightarrow>
   try_classifier pipeline request = (Inl e, [])"
  by (simp add: try_classifier_def)

lemma try_classifier_invoke_fails:
  "pipeline (py ''sentiment-analysis'') (py ''distilbert-base-uncased-finetuned-sst-2-english'') = Inr classifier \<Longrightarrow>
   classifier (take 512 (text' request)) = Inl e \<Longrightarrow>
   try_classifier pipeline request = (Inl e, [Constructed, Invoked (take 512 (text' request))])"
  by (simp add: try_classifier_def)

lemma try_classifier_empty:
  "pipeline (py ''sentiment-analysis'') (py ''distilbert-base-uncased-finetuned-sst-2-english'') = Inr classifier \<Longrightarrow>
   classifier (take 512 (text' request)) = Inr [] \<Longrightarrow>
   try_classifier pipeline request =
     (Inl IndexError, [Constructed, Invoked (take 512 (text' request)), Released])"
  by (simp add: try_classifier_def)

lemma try_classifier_success:
  "pipeline (py ''sentiment-analysis'') (py ''distilbert-base-uncased-finetuned-sst-2-english'') = Inr classifier \<Longrightarrow>
   classifier (take 512 (text' request)) = Inr (r # rs) \<Longrightarrow>
   try_classifier pipeline request =
     (Inr (JObj [(''result'', JObj
        [(''type'', JStr (py ''text'')),
         (''credibilityScore'', JNum (score r)),
         (''analysis'', JStr (py ''Text sentiment: '' @ label r)),
         (''simplified'', JBool True)])]),
      [Constructed, Invoked (take 512 (text' request)), Released])"
  by (simp add: try_classifier_def)

lemma isinstance_Exception_IndexError: "isinstance_Exception IndexError"
  by (simp add: isinstance_Exception_def IndexError_def)

text \<open>
  C3. When the library is imported, the classifier is constructed and its call returns
  an answer with a first entry, the classifier has been called on the first 512
  characters of the text, and the response is exactly the dictionary with type
  \<^verbatim>\<open>text\<close>, the score of that entry, \<^verbatim>\<open>Text sentiment: \<close> followed by its label, and
  \<^verbatim>\<open>simplified\<close> true.
\<close>

theorem analyze_text_inference_result:
  assumes "transformers_import env = Inr pipeline"
    and "pipeline (py ''sentiment-analysis'')
                  (py ''distilbert-base-uncased-finetuned-sst-2-english'') = Inr classifier"
    and "classifier (take 512 (text' request)) = Inr (r # rs)"
  shows "analyze_text env request =
     (Inr (JObj [(''result'', JObj
        [(''type'', JStr (py ''text'')),
         (''credibilityScore'', JNum (score r)),
         (''analysis'', JStr (py ''Text sentiment: '' @ label r)),
         (''simplified'', JBool True)])]),
      [Constructed, Invoked (take 512 (text' request)), Released])"
  using assms(2,3)
  by (simp add: analyze_text_try [OF assms(1)]
        try_classifier_success [of pipeline classifier request r rs])

theorem analyze_text_inference_result_witness:
  "analyze_text env_inference \<lparr>text' = replicate 600 97\<rparr> =
     (Inr (JObj [(''result'', JObj
        [(''type'', JStr (py ''text'')),
         (''credibilityScore'', JNum 0.99),
         (''analysis'', JStr (py ''Text sentiment: POSITIVE'')),
         (''simplified'', JBool True)])]),
      [Constructed, Invoked (replicate 512 97), Released])"
  using analyze_text_inference_result [of env_inference "\<lambda>task model. Inr positive_classifier"
      positive_classifier "\<lparr>text' = replicate 600 97\<rparr>" "\<lparr>label = py ''POSITIVE'', score = 0.99\<rparr>" "[]"]
  by (simp add: env_inference_def positive_classifier_def py_def)

text \<open>
  C10. On the path through the classifier, the result of \<^verbatim>\<open>POST /analyze/text\<close> has
  exactly the fields \<^verbatim>\<open>type\<close>, \<^verbatim>\<open>credibilityScore\<close>, \<^verbatim>\<open>analysis\<close> and
  \<^verbatim>\<open>simplified\<close>; it has no \<^verbatim>\<open>flags\<close>, \<^verbatim>\<open>sources\<close> or \<^verbatim>\<open>details\<close>,
  which the mock scorer's result always has.
\<close>

theorem analyze_text_inference_fields:
  assumes "transformers_import env = Inr pipeline"
    and "pipeline (py ''sentiment-analysis'')
                  (py ''distilbert-base-uncased-finetuned-sst-2-english'') = Inr classifier"
    and "classifier (take 512 (text' request)) = Inr (r # rs)"
  shows "\<exists>response result.
     app env (Post_Analyze_Text request) = Inr response \<and>
     field response ''result'' = Some result \<and>
     keys result = [''type'', ''credibilityScore'', ''analysis'', ''simplified''] \<and>
     field result ''flags'' = None \<and> field result ''sources'' = None \<and>
     field result ''details'' = None \<and>
     field (mock_analysis content_type input_text rnd) ''flags'' \<noteq> None \<and>
     field (mock_analysis content_type input_text rnd) ''sources'' \<noteq> None \<and>
     field (mock_analysis content_type input_text rnd) ''details'' \<noteq> None"
  using assms(2,3)
  by (simp add: analyze_text_try [OF assms(1)] mock_analysis_fields
        try_classifier_success [of pipeline classifier request r rs])

theorem analyze_text_inference_fields_witness:
  "\<exists>result.
     app env_inference (Post_Analyze_Text hello) = Inr (JObj [(''result'', result)]) \<and>
     keys result = [''type'', ''credibilityScore'', ''analysis'', ''simplified''] \<and>
     keys (mock_analysis (py ''text'') (PyStr (text' hello)) example_draws) =
       [''type'', ''credibilityScore'', ''analysis'', ''flags'', ''sources'', ''details'']"
  using analyze_text_inference_fields [of env_inference "\<lambda>task model. Inr positive_classifier"
      positive_classifier hello "\<lparr>label = py ''POSITIVE'', score = 0.99\<rparr>" "[]"
      "py ''text''" "PyStr (text' hello)" example_draws]
  by (simp add: env_inference_def positive_classifier_def mock_analysis_def Let_def hello_def
        analyze_text_def import_transformers_def try_classifier_def)

text \<open>
  The text route can surface an error. \<^verbatim>\<open>import_transformers\<close> is called outside the
  \<^verbatim>\<open>try\<close> of the handler and catches \<^verbatim>\<open>ImportError\<close> only: when loading the
  library fails with another exception (an installation whose backend is broken), the
  exception escapes the handler.
\<close>

theorem analyze_text_broken_install_escapes:
  "app env_broken_install (Post_Analyze_Text hello) =
     Inl (Escaped \<lparr>exc_class = OtherException,
                   exc_message = py ''Failed to import transformers.pipelines''\<rparr>)"
  by (simp add: env_broken_install_def env_inference_def analyze_text_def
        import_transformers_def isinstance_ImportError_def)

text \<open>
  C2, amended. For every text input, when the import of the library succeeds or fails with
  \<^verbatim>\<open>ImportError\<close>, and what constructing or calling the classifier raises is an
  \<^verbatim>\<open>Exception\<close>, \<^verbatim>\<open>POST /analyze/text\<close> answers with a result; the result is
  the mock scorer's unless the classifier was constructed, returned, and its answer has a
  first entry.
\<close>

theorem analyze_text_falls_back_to_mock:
  assumes imp: "\<And>e. transformers_import env = Inl e \<Longrightarrow> isinstance_ImportError e"
    and con: "\<And>pipeline e. transformers_import env = Inr pipeline \<Longrightarrow>
        pipeline (py ''sentiment-analysis'')
                 (py ''distilbert-base-uncased-finetuned-sst-2-english'') = Inl e \<Longrightarrow>
        isinstance_Exception e"
    and inv: "\<And>pipeline classifier e. transformers_import env = Inr pipeline \<Longrightarrow>
        pipeline (py ''sentiment-analysis'')
                 (py ''distilbert-base-uncased-finetuned-sst-2-english'') = Inr classifier \<Longrightarrow>
        classifier (take 512 (text' request)) = Inl e \<Longrightarrow>
        isinstance_Exception e"
  shows "\<exists>response.
     app env (Post_Analyze_Text request) = Inr response \<and>
     ((\<exists>pipeline classifier r rs.
         transformers_import env = Inr pipeline \<and>
         pipeline (py ''sentiment-analysis'')
                  (py ''distilbert-base-uncased-finetuned-sst-2-english'') = Inr classifier \<and>
         classifier (take 512 (text' request)) = Inr (r # rs)) \<or>
      response = JObj [(''result'',
         mock_analysis (py ''text'') (PyStr (text' request)) (mock_random env))])"
proof (cases "transformers_import env")
  case (Inl e)
  then show ?thesis
    using imp [OF Inl] by (simp add: analyze_text_not_installed)
next
  case (Inr pipeline)
  note handler = analyze_text_try [OF Inr, of request]
  show ?thesis
  proof (cases "pipeline (py ''sentiment-analysis'')
                         (py ''distilbert-base-uncased-finetuned-sst-2-english'')")
    case (Inl e)
    then show ?thesis
      using con [OF Inr Inl] by (simp add: handler try_classifier_construct_fails)
  next
    case construct: (Inr classifier)
    show ?thesis
    proof (cases "classifier (take 512 (text' request))")
      case (Inl e)
      then show ?thesis
        using inv [OF Inr construct Inl] construct
        by (simp add: handler try_classifier_invoke_fails [of pipeline classifier request e])
    next
      case result: (Inr result)
      show ?thesis
      proof (cases result)
        case Nil
        then show ?thesis
          using result construct isinstance_Exception_IndexError
          by (simp add: handler try_classifier_empty [of pipeline classifier request])
      next
        case (Cons r rs)
        then show ?thesis
          using result construct Inr
          by (simp add: handler try_classifier_success [of pipeline classifier request r rs])
      qed
    qed
  qed
qed

theorem analyze_text_falls_back_to_mock_witness:
  "app env_not_installed (Post_Analyze_Text hello) =
     Inr (JObj [(''result'', mock_analysis (py ''text'') (PyStr (py ''hello world'')) example_draws)])"
  using analyze_text_falls_back_to_mock [of env_not_installed hello]
  by (simp add: env_not_installed_def env_inference_def hello_def isinstance_ImportError_def)

text \<open>
  The release is not on every exit path. \<^verbatim>\<open>del classifier\<close> and \<^verbatim>\<open>gc.collect()\<close>
  stand behind the call of the classifier inside the \<^verbatim>\<open>try\<close>, with no
  \<^verbatim>\<open>finally\<close>: when the call raises, the handler goes to the mock scorer and the
  release has not run.
\<close>

theorem analyze_text_no_release_on_inference_error:
  "analyze_text env_failing_classifier hello =
     (Inr (JObj [(''result'', mock_analysis (py ''text'') (PyStr (py ''hello world'')) example_draws)]),
      [Constructed, Invoked (py ''hello world'')])"
  by (simp add: env_failing_classifier_def env_inference_def hello_def failing_classifier_def
        analyze_text_def import_transformers_def try_classifier_def isinstance_Exception_def py_def)

text \<open>
  C9, amended. On every text request whose classifier is constructed and whose call
  returns, the classifier is released right behind the call, before the response is
  built. A request never calls a classifier it has not constructed itself: the events
  of a request are none, or a construction followed by the call, with or without the
  release. When the import fails, nothing is constructed.
\<close>

theorem analyze_text_release:
  "(\<forall>pipeline classifier result.
      transformers_import env = Inr pipeline \<longrightarrow>
      pipeline (py ''sentiment-analysis'')
               (py ''distilbert-base-uncased-finetuned-sst-2-english'') = Inr classifier \<longrightarrow>
      classifier (take 512 (text' request)) = Inr result \<longrightarrow>
      snd (analyze_text env request) =
        [Constructed, Invoked (take 512 (text' request)), Released]) \<and>
   (snd (analyze_text env request) = [] \<or>
    snd (analyze_text env request) = [Constructed, Invoked (take 512 (text' request))] \<or>
    snd (analyze_text env request) =
      [Constructed, Invoked (take 512 (text' request)), Released]) \<and>
   (\<forall>e. transformers_import env = Inl e \<longrightarrow> snd (analyze_text env request) = [])"
  by (auto simp add: analyze_text_def import_transformers_def try_classifier_def
        split: sum.splits option.splits list.splits)

theorem analyze_text_release_witness:
  "snd (analyze_text env_inference hello) = [Constructed, Invoked (py ''hello world''), Released] \<and>
   snd (analyze_text env_not_installed hello) = []"
  using analyze_text_release [of env_inference hello] analyze_text_release [of env_not_installed hello]
  by (simp add: env_inference_def env_not_installed_def hello_def positive_classifier_def py_def)

section \<open>The image and video handlers\<close>

text \<open>
  C6. For every upload that decodes to an image of a given width and height,
  \<^verbatim>\<open>POST /analyze/image\<close> answers with type \<^verbatim>\<open>image\<close>, a score between 0.5 and
  0.9 that is the handler's own draw (the mock scorer's draws do not enter), and the
  analysis \<^verbatim>\<open>Image processed: <width>x<height> pixels\<close> with the decoded dimensions.
\<close>

theorem analyze_image_reports_dimensions:
  assumes "image_open env (content file) = Inr (width, height)"
  shows "app env (Post_Analyze_Image file) =
     Inr (JObj [(''result'', JObj
       [(''type'', JStr (py ''image'')),
        (''credibilityScore'', JNum (uniform 0.5 0.9 (image_random env))),
        (''analysis'', JStr (py ''Image processed: '' @ str_int width @ py ''x'' @
                              str_int height @ py '' pixels'')),
        (''basic_analysis'', JBool True)])]) \<and>
     0.5 \<le> uniform 0.5 0.9 (image_random env) \<and> uniform 0.5 0.9 (image_random env) \<le> 0.9 \<and>
     app (env\<lparr>mock_random := rnd\<rparr>) (Post_Analyze_Image file) = app env (Post_Analyze_Image file)"
  using assms image_score_range [of "image_random env"]
  by (simp add: analyze_image_def)

theorem analyze_image_reports_dimensions_witness:
  "app env_inference (Post_Analyze_Image example_upload) =
     Inr (JObj [(''result'', JObj
       [(''type'', JStr (py ''image'')),
        (''credibilityScore'', JNum 0.5),
        (''analysis'', JStr (py ''Image processed: 10x20 pixels'')),
        (''basic_analysis'', JBool True)])])"
  using analyze_image_reports_dimensions [of env_inference example_upload 10 20]
  by (simp add: env_inference_def example_image_open_def uniform_def random_def
        str_int_def str_nat.simps digit_def py_def)

text \<open>
  C7. For every upload whose decoding raises, \<^verbatim>\<open>POST /analyze/image\<close> never answers
  with a result; the decoding error, an \<^verbatim>\<open>Exception\<close>, becomes the status 500 with a
  detail that ends in the error's message.
\<close>

theorem analyze_image_decode_failure:
  assumes "image_open env (content file) = Inl e"
  shows "(\<forall>response. app env (Post_Analyze_Image file) \<noteq> Inr response) \<and>
     (isinstance_Exception e \<longrightarrow>
        app env (Post_Analyze_Image file) =
          Inl (HTTPException 500 (py ''Image processing failed: '' @ exc_message e)))"
  using assms by (simp add: analyze_image_def)

theorem analyze_image_decode_failure_witness:
  "app env_inference (Post_Analyze_Image \<lparr>content = [0x47, 0x49]\<rparr>) =
     Inl (HTTPException 500 (py ''Image processing failed: cannot identify image file''))"
  using analyze_image_decode_failure [of env_inference "\<lparr>content = [0x47, 0x49]\<rparr>"
      "\<lparr>exc_class = OtherException, exc_message = py ''cannot identify image file''\<rparr>"]
  by (simp add: env_inference_def example_image_open_def example_upload_def
        isinstance_Exception_def py_def)

text \<open>
  C8. Whatever the request carries, also nothing, \<^verbatim>\<open>POST /analyze/video\<close> fails with
  the status 501 and the fixed detail \<^verbatim>\<open>Video analysis not implemented\<close>, and never
  answers with a result.
\<close>

theorem analyze_video_not_implemented:
  "app env (Post_Analyze_Video body) =
     Inl (HTTPException 501 (py ''Video analysis not implemented'')) \<and>
   (\<forall>response. app env (Post_Analyze_Video body) \<noteq> Inr response)"
  by (simp add: analyze_video_def)

theorem analyze_video_not_implemented_witness:
  "app env_inference (Post_Analyze_Video None) =
     Inl (HTTPException 501 (py ''Video analysis not implemented'')) \<and>
   app env_not_installed (Post_Analyze_Video (Some [0, 1, 2])) =
     Inl (HTTPException 501 (py ''Video analysis not implemented''))"
  using analyze_video_not_implemented [of env_inference None]
    analyze_video_not_implemented [of env_not_installed "Some [0, 1, 2]"]
  by simp

section \<open>The score of every result\<close>




end
